theory Spec2Isabelle
  imports Complex_Main "HOL-Library.Multiset" "HOL-Library.Stream"
begin

section \<open>The probability calculator: data model\<close>

text \<open>
  The development embeds \<^verbatim>\<open>probability_calculator.py\<close>: the class \<^verbatim>\<open>Hat\<close> with its
  constructor and its method \<^verbatim>\<open>draw\<close>, and the function \<^verbatim>\<open>experiment\<close>.

  Python exceptions are values of the type \<open>error\<close>. The source itself has no
  \<^verbatim>\<open>raise\<close> statement; the exceptions below are the ones the library calls,
  operators and calls it uses can raise: \<^verbatim>\<open>random.choice\<close> on an empty sequence
  (\<^verbatim>\<open>IndexError\<close>), \<^verbatim>\<open>list.remove\<close> of an absent value (\<^verbatim>\<open>ValueError\<close>), the
  division \<^verbatim>\<open>count_success / num_experiments\<close> (\<^verbatim>\<open>ZeroDivisionError\<close>), the
  method call \<^verbatim>\<open>hat_copy.draw\<close> on something that is not a \<^verbatim>\<open>Hat\<close>
  (\<^verbatim>\<open>AttributeError\<close>), and the binding of the arguments of
  \<^verbatim>\<open>__init__(self, **kwargs)\<close> when a keyword is named \<^verbatim>\<open>self\<close> (\<^verbatim>\<open>TypeError\<close>).
\<close>

datatype error = IndexError | ValueError | ZeroDivisionError | AttributeError | TypeError

text \<open>
  An instance of \<^verbatim>\<open>Hat\<close> has the two attributes the constructor sets. Both are
  lists of colour names, kept as separate list objects (\<^verbatim>\<open>self.contents[:]\<close> copies).
\<close>

record Hat =
  contents :: "string list"
  original_contents :: "string list"

text \<open>
  \<^verbatim>\<open>**kwargs\<close> and \<^verbatim>\<open>expected_balls\<close> are dictionaries from colour to an integer;
  Python iterates over \<^verbatim>\<open>.items()\<close> in insertion order, so they are association
  lists here.
\<close>

type_synonym kwargs = "(string \<times> int) list"

subsection \<open>The random source\<close>

text \<open>
  The module-level generator of \<^verbatim>\<open>random\<close> is hidden global state. It is made
  explicit as the stream of raw numbers the generator is going to produce. Drawing an
  index below \<open>n\<close> reduces the next raw number modulo \<open>n\<close>, so that every index
  \<open>0 \<le> i < n\<close> is the outcome for some generator; nothing is assumed about the
  distribution. All results below hold for every generator.
\<close>

type_synonym rng = "nat stream"

definition randbelow :: "rng \<Rightarrow> nat \<Rightarrow> nat \<times> rng" where
  "randbelow g n = (shd g mod n, stl g)"

text \<open>
  \<^verbatim>\<open>random.choice(seq)\<close>: raises \<^verbatim>\<open>IndexError\<close> on an empty sequence and returns
  \<^verbatim>\<open>seq[randbelow(len(seq))]\<close> otherwise.
\<close>

definition choice :: "rng \<Rightarrow> 'a list \<Rightarrow> error + ('a \<times> rng)" where
  "choice g seq =
     (if seq = [] then Inl IndexError
      else (case randbelow g (length seq) of (i, g') \<Rightarrow> Inr (seq ! i, g')))"

text \<open>
  \<^verbatim>\<open>list.remove(x)\<close>: deletes the first occurrence of \<open>x\<close>, and raises
  \<^verbatim>\<open>ValueError\<close> when there is none.
\<close>

definition list_remove :: "'a list \<Rightarrow> 'a \<Rightarrow> error + 'a list" where
  "list_remove xs x = (if x \<in> set xs then Inr (remove1 x xs) else Inl ValueError)"

section \<open>The class Hat\<close>

subsection \<open>The constructor\<close>

text \<open>
  The inner loop \<^verbatim>\<open>for _ in range(count): self.contents.append(color)\<close>. The number
  of iterations of \<^verbatim>\<open>range(count)\<close> is \<open>nat count\<close>: none when \<open>count \<le> 0\<close>.
\<close>

fun append_times :: "nat \<Rightarrow> string \<Rightarrow> string list \<Rightarrow> string list" where
  "append_times 0 color cs = cs"
| "append_times (Suc n) color cs = append_times n color (cs @ [color])"

text \<open>The outer loop \<^verbatim>\<open>for color, count in kwargs.items()\<close>.\<close>

fun init_loop :: "kwargs \<Rightarrow> string list \<Rightarrow> string list" where
  "init_loop [] cs = cs"
| "init_loop ((color, count') # rest) cs = init_loop rest (append_times (nat count') color cs)"

text \<open>
  \<^verbatim>\<open>Hat.__init__(self, **kwargs)\<close>. The signature has the positional parameter
  \<^verbatim>\<open>self\<close>, so a call with a keyword named \<^verbatim>\<open>self\<close> fails before the body runs:
  Python raises \<^verbatim>\<open>TypeError\<close> (multiple values for the argument \<^verbatim>\<open>self\<close>). Every
  other string is accepted as a keyword of \<^verbatim>\<open>**kwargs\<close>. The body fills
  \<^verbatim>\<open>contents\<close> from the empty list and stores a copy of it in
  \<^verbatim>\<open>original_contents\<close>; no statement of the body raises.
\<close>

definition Hat_init :: "kwargs \<Rightarrow> error + Hat" where
  "Hat_init kw =
     (if ''self'' \<in> set (map fst kw) then Inl TypeError
      else (let cs = init_loop kw []
            in Inr \<lparr>contents = cs, original_contents = cs\<rparr>))"

subsection \<open>The method draw\<close>

text \<open>
  The selection loop \<^verbatim>\<open>for _ in range(num_balls)\<close> of \<^verbatim>\<open>draw\<close>, on the list
  \<^verbatim>\<open>extracted_balls\<close>, the list \<^verbatim>\<open>self.contents\<close> and the generator.
\<close>

fun draw_loop :: "nat \<Rightarrow> string list \<Rightarrow> string list \<Rightarrow> rng
    \<Rightarrow> error + (string list \<times> string list \<times> rng)" where
  "draw_loop 0 extracted_balls cs g = Inr (extracted_balls, cs, g)"
| "draw_loop (Suc n) extracted_balls cs g =
     (case choice g cs of
        Inl e \<Rightarrow> Inl e
      | Inr (random_ball, g') \<Rightarrow>
          (case list_remove cs random_ball of
             Inl e \<Rightarrow> Inl e
           | Inr cs' \<Rightarrow> draw_loop n (extracted_balls @ [random_ball]) cs' g'))"

text \<open>
  \<^verbatim>\<open>Hat.draw(self, num_balls)\<close> returns the drawn balls, the object after the call and
  the generator after the call. The first branch is the over-draw branch
  \<^verbatim>\<open>if num_balls >= len(self.contents)\<close>.
\<close>

definition draw :: "Hat \<Rightarrow> int \<Rightarrow> rng \<Rightarrow> error + (string list \<times> Hat \<times> rng)" where
  "draw self num_balls g =
     (if num_balls \<ge> int (length (contents self))
      then Inr (contents self, self\<lparr>contents := []\<rparr>, g)
      else (case draw_loop (nat num_balls) [] (contents self) g of
              Inl e \<Rightarrow> Inl e
            | Inr (extracted_balls, cs, g') \<Rightarrow> Inr (extracted_balls, self\<lparr>contents := cs\<rparr>, g')))"

text \<open>
  A client that calls \<^verbatim>\<open>draw\<close> on one hat several times, with the draw sizes
  \<open>ks\<close> in turn: the hat and the generator are threaded through the calls, and the
  results are collected. It stands for an arbitrary sequence of \<^verbatim>\<open>draw\<close> operations.
\<close>

fun draw_sequence :: "Hat \<Rightarrow> int list \<Rightarrow> rng \<Rightarrow> error + (string list list \<times> Hat \<times> rng)" where
  "draw_sequence self [] g = Inr ([], self, g)"
| "draw_sequence self (k # ks) g =
     (case draw self k g of
        Inl e \<Rightarrow> Inl e
      | Inr (out, self', g') \<Rightarrow>
          (case draw_sequence self' ks g' of
             Inl e \<Rightarrow> Inl e
           | Inr (outs, self'', g'') \<Rightarrow> Inr (out # outs, self'', g'')))"

section \<open>The function experiment\<close>

subsection \<open>Objects and references\<close>

text \<open>
  \<^verbatim>\<open>experiment\<close> receives a reference to a \<^verbatim>\<open>Hat\<close> object, copies the object and
  calls the mutating method \<^verbatim>\<open>draw\<close> on the copy. Whether the caller's object is
  changed depends on which object \<^verbatim>\<open>draw\<close> is called on, so objects live in an
  explicit store: a heap is the list of the \<^verbatim>\<open>Hat\<close> objects allocated so far, and a
  reference is an index into it. A reference outside the heap stands for an argument
  that is not a \<^verbatim>\<open>Hat\<close>.
\<close>

type_synonym heap = "Hat list"
type_synonym ref = nat

text \<open>
  \<^verbatim>\<open>copy.deepcopy(hat)\<close> allocates a new object whose attributes are copies of the
  attributes of \<open>hat\<close>, and returns the reference to it. (For an argument that is
  not a \<^verbatim>\<open>Hat\<close>, Python fails one line later, at \<^verbatim>\<open>hat_copy.draw\<close>, with the same
  exception.)
\<close>

definition deepcopy :: "heap \<Rightarrow> ref \<Rightarrow> error + (ref \<times> heap)" where
  "deepcopy heap r =
     (if r < length heap then Inr (length heap, heap @ [heap ! r]) else Inl AttributeError)"

text \<open>
  The method call \<^verbatim>\<open>r.draw(num_balls)\<close>: \<open>draw\<close> runs on the object that \<open>r\<close>
  refers to, and that object is replaced by its state after the call.
\<close>

definition call_draw :: "heap \<Rightarrow> ref \<Rightarrow> int \<Rightarrow> rng \<Rightarrow> error + (string list \<times> heap \<times> rng)" where
  "call_draw heap r num_balls g =
     (if r < length heap
      then (case draw (heap ! r) num_balls g of
              Inl e \<Rightarrow> Inl e
            | Inr (out, self', g') \<Rightarrow> Inr (out, heap[r := self'], g'))
      else Inl AttributeError)"

subsection \<open>Scoring one trial\<close>

text \<open>\<^verbatim>\<open>d.get(k, dflt)\<close> on a dictionary: the value at \<open>k\<close>, or \<open>dflt\<close> when there is none.\<close>

definition dict_get :: "('k \<rightharpoonup> 'v) \<Rightarrow> 'k \<Rightarrow> 'v \<Rightarrow> 'v" where
  "dict_get d k dflt = (case d k of None \<Rightarrow> dflt | Some v \<Rightarrow> v)"

text \<open>
  The loop \<^verbatim>\<open>for ball in drawn_balls: drawn_balls_count[ball] =
  drawn_balls_count.get(ball, 0) + 1\<close>.
\<close>

fun tally_loop :: "string list \<Rightarrow> (string \<rightharpoonup> int) \<Rightarrow> (string \<rightharpoonup> int)" where
  "tally_loop [] drawn_balls_count = drawn_balls_count"
| "tally_loop (ball # rest) drawn_balls_count =
     tally_loop rest (drawn_balls_count(ball \<mapsto> dict_get drawn_balls_count ball 0 + 1))"

text \<open>
  The loop \<^verbatim>\<open>for color, expected_amount in expected_balls.items()\<close>, which starts
  with \<^verbatim>\<open>meets_expectations = True\<close> and leaves with \<^verbatim>\<open>False\<close> at the first
  colour of which too few balls were drawn. The result is the final value of
  \<^verbatim>\<open>meets_expectations\<close>.
\<close>

fun meets_loop :: "kwargs \<Rightarrow> (string \<rightharpoonup> int) \<Rightarrow> bool" where
  "meets_loop [] drawn_balls_count = True"
| "meets_loop ((color, expected_amount) # rest) drawn_balls_count =
     (if dict_get drawn_balls_count color 0 < expected_amount then False
      else meets_loop rest drawn_balls_count)"

subsection \<open>The trial loop and the estimate\<close>

text \<open>
  The body of the loop \<^verbatim>\<open>for _ in range(num_experiments)\<close>: it takes and returns the
  counter \<^verbatim>\<open>count_success\<close>, the heap and the generator.
\<close>

definition experiment_body :: "ref \<Rightarrow> kwargs \<Rightarrow> int \<Rightarrow> int \<Rightarrow> heap \<Rightarrow> rng
    \<Rightarrow> error + (int \<times> heap \<times> rng)" where
  "experiment_body hat expected_balls num_balls_drawn count_success heap g =
     (case deepcopy heap hat of
        Inl e \<Rightarrow> Inl e
      | Inr (hat_copy, heap1) \<Rightarrow>
          (case call_draw heap1 hat_copy num_balls_drawn g of
             Inl e \<Rightarrow> Inl e
           | Inr (drawn_balls, heap2, g') \<Rightarrow>
               (let drawn_balls_count = tally_loop drawn_balls Map.empty;
                    meets_expectations = meets_loop expected_balls drawn_balls_count
                in Inr (if meets_expectations then count_success + 1 else count_success,
                        heap2, g'))))"

fun experiment_loop :: "nat \<Rightarrow> ref \<Rightarrow> kwargs \<Rightarrow> int \<Rightarrow> int \<Rightarrow> heap \<Rightarrow> rng
    \<Rightarrow> error + (int \<times> heap \<times> rng)" where
  "experiment_loop 0 hat expected_balls num_balls_drawn count_success heap g =
     Inr (count_success, heap, g)"
| "experiment_loop (Suc n) hat expected_balls num_balls_drawn count_success heap g =
     (case experiment_body hat expected_balls num_balls_drawn count_success heap g of
        Inl e \<Rightarrow> Inl e
      | Inr (count_success', heap', g') \<Rightarrow>
          experiment_loop n hat expected_balls num_balls_drawn count_success' heap' g')"

text \<open>
  \<^verbatim>\<open>experiment(hat, expected_balls, num_balls_drawn, num_experiments)\<close>, named
  \<open>experiment_fn\<close> here because \<^verbatim>\<open>experiment\<close> is a keyword of Isabelle. The loop runs
  \<open>nat num_experiments\<close> times (\<^verbatim>\<open>range\<close> of a number below 1 is empty); the
  division after the loop raises \<^verbatim>\<open>ZeroDivisionError\<close> when \<^verbatim>\<open>num_experiments\<close> is 0.
  The result of Python's true division of two integers is the floating-point number
  nearest to the exact quotient; the model returns the exact quotient, a real number.
  Rounding to the nearest float is monotone and leaves 0 and 1 as they are, so bounds
  by 0 and 1 and equality with 0 or 1 hold for the float when they hold for the quotient.
\<close>

definition experiment_fn :: "ref \<Rightarrow> kwargs \<Rightarrow> int \<Rightarrow> int \<Rightarrow> heap \<Rightarrow> rng
    \<Rightarrow> error + (real \<times> heap \<times> rng)" where
  "experiment_fn hat expected_balls num_balls_drawn num_experiments heap g =
     (case experiment_loop (nat num_experiments) hat expected_balls num_balls_drawn 0 heap g of
        Inl e \<Rightarrow> Inl e
      | Inr (count_success, heap', g') \<Rightarrow>
          if num_experiments = 0 then Inl ZeroDivisionError
          else Inr (real_of_int count_success / real_of_int num_experiments, heap', g'))"

section \<open>Properties of draw\<close>

text \<open>
  Inside the selection loop neither library call raises: \<open>choice\<close> is applied to a
  non-empty list, and \<open>list_remove\<close> to a ball that \<open>choice\<close> took from the list.
\<close>

lemma choice_nonempty:
  "cs \<noteq> [] \<Longrightarrow> \<exists>b. choice g cs = Inr (b, stl g) \<and> b \<in> set cs"
  by (simp add: choice_def randbelow_def)

lemma list_remove_member:
  "b \<in> set cs \<Longrightarrow> list_remove cs b = Inr (remove1 b cs)"
  by (simp add: list_remove_def)

text \<open>
  The loop, run at most as often as there are balls, returns normally; it appends
  exactly \<open>n\<close> balls to \<open>extracted_balls\<close>, and those balls together with the balls
  left are the balls it started from.
\<close>

lemma draw_loop_total:
  "n \<le> length cs \<Longrightarrow>
     \<exists>ex cs' g'. draw_loop n acc cs g = Inr (acc @ ex, cs', g')
        \<and> mset ex + mset cs' = mset cs \<and> length ex = n"
proof (induction n arbitrary: acc cs g)
  case 0
  then show ?case by simp
next
  case (Suc n)
  then have ne: "cs \<noteq> []" by auto
  from choice_nonempty [OF ne] obtain b where
    b: "choice g cs = Inr (b, stl g)" "b \<in> set cs" by blast
  have len: "n \<le> length (remove1 b cs)"
    using Suc.prems b(2) by (simp add: length_remove1)
  from Suc.IH [OF len, of "acc @ [b]" "stl g"] obtain ex cs' g' where
    ih: "draw_loop n (acc @ [b]) (remove1 b cs) (stl g) = Inr ((acc @ [b]) @ ex, cs', g')"
        "mset ex + mset cs' = mset (remove1 b cs)" "length ex = n" by blast
  have "draw_loop (Suc n) acc cs g = Inr (acc @ (b # ex), cs', g')"
    using b ih(1) by (simp add: list_remove_member)
  moreover have "mset (b # ex) + mset cs' = mset cs"
    using ih(2) b(2) by simp
  moreover have "length (b # ex) = Suc n" using ih(3) by simp
  ultimately show ?case by blast
qed

text \<open>
  \<open>draw\<close> returns normally for every hat, every integer and every generator. It
  changes no attribute but \<open>contents\<close>; the balls drawn and the balls left are the
  balls that were in the hat; the number of balls drawn is \<open>num_balls\<close> cut to the
  range from 0 to the number of balls in the hat.
\<close>

lemma draw_total:
  "\<exists>out cs' g'. draw self k g = Inr (out, self\<lparr>contents := cs'\<rparr>, g')
      \<and> mset out + mset cs' = mset (contents self)
      \<and> int (length out) = max 0 (min k (int (length (contents self))))"
proof (cases "int (length (contents self)) \<le> k")
  case True
  then show ?thesis by (simp add: draw_def)
next
  case False
  then have "nat k \<le> length (contents self)" by simp
  from draw_loop_total [OF this, of "[]" g] obtain ex cs' g' where
    h: "draw_loop (nat k) [] (contents self) g = Inr (ex, cs', g')"
       "mset ex + mset cs' = mset (contents self)" "length ex = nat k" by auto
  have "draw self k g = Inr (ex, self\<lparr>contents := cs'\<rparr>, g')"
    using False h(1) by (simp add: draw_def)
  moreover have "int (length ex) = max 0 (min k (int (length (contents self))))"
    using False h(3) by simp
  ultimately show ?thesis using h(2) by blast
qed

lemma draw_result:
  assumes "draw self k g = Inr (out, self', g')"
  shows "original_contents self' = original_contents self"
    and "mset out + mset (contents self') = mset (contents self)"
    and "int (length out) = max 0 (min k (int (length (contents self))))"
proof -
  from draw_total [of self k g] obtain out0 cs0 g0 where
    h: "draw self k g = Inr (out0, self\<lparr>contents := cs0\<rparr>, g0)"
       "mset out0 + mset cs0 = mset (contents self)"
       "int (length out0) = max 0 (min k (int (length (contents self))))" by blast
  from h(1) assms have eq: "out = out0" "self' = self\<lparr>contents := cs0\<rparr>" by simp_all
  show "original_contents self' = original_contents self" using eq by simp
  show "mset out + mset (contents self') = mset (contents self)" using eq h(2) by simp
  show "int (length out) = max 0 (min k (int (length (contents self))))" using eq h(3) by simp
qed

text \<open>
  Claim C2 (over-draw saturation). For every hat and every \<open>num_balls\<close> that is at
  least the current number of balls, however large, \<open>draw\<close> returns normally: the
  result is the whole of \<open>contents\<close>, and \<open>contents\<close> is empty afterwards.
\<close>

theorem draw_overdraw:
  "int (length (contents self)) \<le> num_balls \<Longrightarrow>
     draw self num_balls g = Inr (contents self, self\<lparr>contents := []\<rparr>, g)"
  by (simp add: draw_def)

theorem draw_overdraw_witness:
  "int (length (contents \<lparr>contents = [''red'', ''blue''], original_contents = [''red'', ''blue'', ''red'']\<rparr>)) \<le> 1000
   \<and> draw \<lparr>contents = [''red'', ''blue''], original_contents = [''red'', ''blue'', ''red'']\<rparr> 1000 (sconst 0)
       = Inr ([''red'', ''blue''], \<lparr>contents = [], original_contents = [''red'', ''blue'', ''red'']\<rparr>, sconst 0)"
  using draw_overdraw [of "\<lparr>contents = [''red'', ''blue''], original_contents = [''red'', ''blue'', ''red'']\<rparr>" 1000 "sconst 0"]
  by simp

text \<open>
  Claim C10 (negative draw size). For every hat and every negative \<open>num_balls\<close>,
  \<open>draw\<close> returns the empty list and leaves the hat as it was: the over-draw test
  fails, since a length is never negative, and \<^verbatim>\<open>range(num_balls)\<close> is empty.
\<close>

theorem draw_negative:
  "num_balls < 0 \<Longrightarrow> draw self num_balls g = Inr ([], self, g)"
  by (simp add: draw_def)

theorem draw_negative_witness:
  "(-3::int) < 0
   \<and> draw \<lparr>contents = [''red'', ''blue''], original_contents = [''red'', ''blue'']\<rparr> (-3) (sconst 0)
       = Inr ([], \<lparr>contents = [''red'', ''blue''], original_contents = [''red'', ''blue'']\<rparr>, sconst 0)"
  using draw_negative [of "-3" "\<lparr>contents = [''red'', ''blue''], original_contents = [''red'', ''blue'']\<rparr>" "sconst 0"]
  by simp

text \<open>
  Claim C4 (conservation). For every hat and every \<open>k\<close> from 0 to the number of
  balls in the hat, \<open>draw k\<close> and a following \<open>draw\<close> of all the balls that are left
  both return normally, and the two results together are, as multisets, the contents
  before the first call: no ball is created and none is lost.
\<close>

theorem draw_conservation:
  "0 \<le> k \<Longrightarrow> k \<le> int (length (contents self)) \<Longrightarrow>
     \<exists>out1 h1 g1 out2 h2 g2.
        draw self k g = Inr (out1, h1, g1)
      \<and> draw h1 (int (length (contents h1))) g1 = Inr (out2, h2, g2)
      \<and> mset out1 + mset out2 = mset (contents self)"
proof -
  from draw_total [of self k g] obtain out1 cs1 g1 where
    d1: "draw self k g = Inr (out1, self\<lparr>contents := cs1\<rparr>, g1)"
        "mset out1 + mset cs1 = mset (contents self)" by blast
  let ?h1 = "self\<lparr>contents := cs1\<rparr>"
  have d2: "draw ?h1 (int (length (contents ?h1))) g1 = Inr (cs1, ?h1\<lparr>contents := []\<rparr>, g1)"
    by (simp add: draw_def)
  show ?thesis using d1 d2 by blast
qed

theorem draw_conservation_witness:
  "(0::int) \<le> 2
   \<and> 2 \<le> int (length (contents \<lparr>contents = [''a'', ''b'', ''c''], original_contents = [''a'', ''b'', ''c'']\<rparr>))
   \<and> (\<exists>out1 h1 g1 out2 h2 g2.
        draw \<lparr>contents = [''a'', ''b'', ''c''], original_contents = [''a'', ''b'', ''c'']\<rparr> 2 (sconst 1)
          = Inr (out1, h1, g1)
      \<and> draw h1 (int (length (contents h1))) g1 = Inr (out2, h2, g2)
      \<and> mset out1 + mset out2 = mset [''a'', ''b'', ''c''])"
  using draw_conservation [of 2 "\<lparr>contents = [''a'', ''b'', ''c''], original_contents = [''a'', ''b'', ''c'']\<rparr>" "sconst 1"]
  by simp

section \<open>Properties of the constructor\<close>

text \<open>The two loops of the constructor append, for each entry in turn, \<open>nat count\<close>
  copies of the colour.\<close>

lemma append_times_replicate: "append_times n color cs = cs @ replicate n color"
  by (induction n arbitrary: cs) (simp_all add: replicate_app_Cons_same)

lemma init_loop_concat:
  "init_loop kw cs = cs @ concat (map (\<lambda>(color, n). replicate (nat n) color) kw)"
  by (induction kw arbitrary: cs) (auto simp: append_times_replicate)

text \<open>
  Claim C5, as the code has it. The claim says that a negative count makes the
  construction fail with an \<^verbatim>\<open>InvalidCount\<close> error. The constructor has no check:
  \<^verbatim>\<open>range(count)\<close> is empty for a negative count, so the colour gets no ball and the
  construction succeeds, here with an empty hat.
\<close>

theorem Hat_init_negative_counterexample:
  "Hat_init [(''red'', -1)] = Inr \<lparr>contents = [], original_contents = []\<rparr>"
  by (simp add: Hat_init_def Let_def)

text \<open>
  Claim C5, amended. No count makes the construction fail: whether it succeeds depends
  on the labels only. It fails, with \<^verbatim>\<open>TypeError\<close>, exactly when some label is named
  \<^verbatim>\<open>self\<close>, the name of the constructor's own parameter. For every other mapping from
  labels to integers it succeeds, also when some count is negative: each entry
  contributes \<open>nat count\<close> balls of its colour, in the order of the entries, so none for
  a negative count, as for the count 0; and the snapshot \<open>original_contents\<close> equals
  \<open>contents\<close>.
\<close>

theorem Hat_init_total:
  "Hat_init kw =
     (if ''self'' \<in> set (map fst kw) then Inl TypeError
      else Inr \<lparr>contents = concat (map (\<lambda>(color, n). replicate (nat n) color) kw),
                original_contents = concat (map (\<lambda>(color, n). replicate (nat n) color) kw)\<rparr>)"
  by (simp add: Hat_init_def Let_def init_loop_concat)

theorem Hat_init_total_witness:
  "Hat_init [(''red'', 2), (''blue'', -1), (''green'', 1)]
     = Inr \<lparr>contents = [''red'', ''red'', ''green''],
            original_contents = [''red'', ''red'', ''green'']\<rparr>
   \<and> Hat_init [(''red'', 2), (''self'', 1)] = Inl TypeError"
  using Hat_init_total [of "[(''red'', 2), (''blue'', -1), (''green'', 1)]"]
    Hat_init_total [of "[(''red'', 2), (''self'', 1)]"]
  by (simp add: numeral_2_eq_2)

section \<open>Sequences of draws\<close>

text \<open>
  Every sequence of draws returns normally; what is left in the hat is part of what was
  there, and \<open>original_contents\<close> is as before.
\<close>

lemma draw_sequence_total:
  "\<exists>outs self' g'. draw_sequence self ks g = Inr (outs, self', g')
      \<and> mset (contents self') \<subseteq># mset (contents self)
      \<and> original_contents self' = original_contents self"
proof (induction ks arbitrary: self g)
  case Nil
  then show ?case by simp
next
  case (Cons k ks)
  from draw_total [of self k g] obtain out cs1 g1 where
    d: "draw self k g = Inr (out, self\<lparr>contents := cs1\<rparr>, g1)"
       "mset out + mset cs1 = mset (contents self)" by blast
  let ?h1 = "self\<lparr>contents := cs1\<rparr>"
  from Cons.IH [of ?h1 g1] obtain outs h2 g2 where
    s: "draw_sequence ?h1 ks g1 = Inr (outs, h2, g2)"
       "mset (contents h2) \<subseteq># mset (contents ?h1)"
       "original_contents h2 = original_contents ?h1" by blast
  have "draw_sequence self (k # ks) g = Inr (out # outs, h2, g2)"
    using d(1) s(1) by simp
  moreover have "mset cs1 \<subseteq># mset (contents self)"
    using d(2) by (metis mset_subset_eq_add_right)
  then have "mset (contents h2) \<subseteq># mset (contents self)"
    using s(2) by (simp add: subset_mset.order_trans)
  moreover have "original_contents h2 = original_contents self" using s(3) by simp
  ultimately show ?case by blast
qed

text \<open>
  Claim C9 (invariant of a hat). Let \<open>h0\<close> be a hat as the constructor returns it,
  \<open>h\<close> the hat after any sequence \<open>ks\<close> of draws from it, and \<open>h'\<close> the hat after
  one more draw. All the draws return normally. In \<open>h\<close> and in \<open>h'\<close> the contents
  are no longer than the snapshot; the draw from \<open>h\<close> to \<open>h'\<close> only removes balls
  (the contents of \<open>h'\<close> are a sub-multiset of those of \<open>h\<close>); and the snapshot of
  \<open>h\<close> and of \<open>h'\<close> is the snapshot of \<open>h0\<close>.
\<close>

theorem hat_invariant:
  "Hat_init kw = Inr h0 \<Longrightarrow>
     \<exists>outs h g1 out h' g2.
        draw_sequence h0 ks g = Inr (outs, h, g1)
      \<and> draw h k g1 = Inr (out, h', g2)
      \<and> length (contents h) \<le> length (original_contents h)
      \<and> length (contents h') \<le> length (original_contents h')
      \<and> mset (contents h') \<subseteq># mset (contents h)
      \<and> original_contents h = original_contents h0
      \<and> original_contents h' = original_contents h0"
proof -
  assume init: "Hat_init kw = Inr h0"
  then have same: "original_contents h0 = contents h0"
    by (auto simp: Hat_init_def Let_def split: if_splits)
  from draw_sequence_total [of h0 ks g] obtain outs h g1 where
    s: "draw_sequence h0 ks g = Inr (outs, h, g1)"
       "mset (contents h) \<subseteq># mset (contents h0)"
       "original_contents h = original_contents h0" by blast
  from draw_total [of h k g1] obtain out cs' g2 where
    d: "draw h k g1 = Inr (out, h\<lparr>contents := cs'\<rparr>, g2)"
       "mset out + mset cs' = mset (contents h)" by blast
  let ?h' = "h\<lparr>contents := cs'\<rparr>"
  have sub: "mset (contents ?h') \<subseteq># mset (contents h)"
    using d(2) by (metis mset_subset_eq_add_right select_convs(1) surjective update_convs(1))
  have len: "length (contents h) \<le> length (original_contents h)"
    using s(2) s(3) same by (metis size_mset size_mset_mono)
  have len': "length (contents ?h') \<le> length (original_contents ?h')"
    using sub len by (metis (no_types, lifting) le_trans size_mset size_mset_mono select_convs(2) surjective update_convs(1))
  show ?thesis using s(1) s(3) d(1) sub len len' by auto
qed

theorem hat_invariant_witness:
  "Hat_init [(''red'', 2), (''blue'', 1)]
     = Inr \<lparr>contents = [''red'', ''red'', ''blue''], original_contents = [''red'', ''red'', ''blue'']\<rparr>
   \<and> (\<exists>outs h g1 out h' g2.
        draw_sequence \<lparr>contents = [''red'', ''red'', ''blue''], original_contents = [''red'', ''red'', ''blue'']\<rparr>
          [1, 0] (sconst 2) = Inr (outs, h, g1)
      \<and> draw h 1 g1 = Inr (out, h', g2)
      \<and> length (contents h) \<le> length (original_contents h)
      \<and> length (contents h') \<le> length (original_contents h')
      \<and> mset (contents h') \<subseteq># mset (contents h)
      \<and> original_contents h = [''red'', ''red'', ''blue'']
      \<and> original_contents h' = [''red'', ''red'', ''blue''])"
proof -
  have i: "Hat_init [(''red'', 2), (''blue'', 1)]
     = Inr \<lparr>contents = [''red'', ''red'', ''blue''], original_contents = [''red'', ''red'', ''blue'']\<rparr>"
    by (simp add: Hat_init_def Let_def numeral_2_eq_2)
  show ?thesis using i hat_invariant [OF i, of "[1, 0]" "sconst 2" 1] by simp
qed

section \<open>Properties of experiment\<close>

subsection \<open>Scoring\<close>

text \<open>
  After the tally loop, \<^verbatim>\<open>drawn_balls_count.get(color, 0)\<close> is the number of
  occurrences of the colour among the drawn balls (added to what the dictionary held
  before); the check loop returns true exactly when every entry of \<open>expected_balls\<close>
  is met.
\<close>

lemma dict_get_tally_loop:
  "dict_get (tally_loop drawn_balls d) color 0 = dict_get d color 0 + int (count_list drawn_balls color)"
  by (induction drawn_balls arbitrary: d) (auto simp: dict_get_def)

lemma meets_loop_iff:
  "meets_loop expected_balls d \<longleftrightarrow> (\<forall>(color, amount) \<in> set expected_balls. amount \<le> dict_get d color 0)"
  by (induction expected_balls d rule: meets_loop.induct) auto

lemma meets_tally_iff:
  "meets_loop expected_balls (tally_loop drawn_balls Map.empty)
     \<longleftrightarrow> (\<forall>(color, amount) \<in> set expected_balls. amount \<le> int (count_list drawn_balls color))"
  by (simp add: meets_loop_iff dict_get_tally_loop) (simp add: dict_get_def)

subsection \<open>One trial\<close>

text \<open>
  A trial on a reference to a hat returns normally. It draws from a copy of the hat, which
  becomes the last object of the heap; the objects that were in the heap stay as they
  were. The counter goes up by one exactly when the drawn balls meet every entry of
  \<open>expected_balls\<close>.
\<close>

lemma experiment_body_total:
  assumes "hat < length heap"
  shows "\<exists>drawn_balls hat_copy' g'.
           draw (heap ! hat) k g = Inr (drawn_balls, hat_copy', g')
         \<and> experiment_body hat expected_balls k cnt heap g =
             Inr (if (\<forall>(color, amount) \<in> set expected_balls.
                        amount \<le> int (count_list drawn_balls color))
                  then cnt + 1 else cnt,
                  heap @ [hat_copy'], g')"
proof -
  from draw_total [of "heap ! hat" k g] obtain out cs' g' where
    d: "draw (heap ! hat) k g = Inr (out, (heap ! hat)\<lparr>contents := cs'\<rparr>, g')" by blast
  have c: "deepcopy heap hat = Inr (length heap, heap @ [heap ! hat])"
    using assms by (simp add: deepcopy_def)
  have m: "call_draw (heap @ [heap ! hat]) (length heap) k g
             = Inr (out, heap @ [(heap ! hat)\<lparr>contents := cs'\<rparr>], g')"
    using d by (simp add: call_draw_def)
  have "experiment_body hat expected_balls k cnt heap g =
          Inr (if (\<forall>(color, amount) \<in> set expected_balls. amount \<le> int (count_list out color))
               then cnt + 1 else cnt,
               heap @ [(heap ! hat)\<lparr>contents := cs'\<rparr>], g')"
    unfolding experiment_body_def c using m by (simp add: Let_def meets_tally_iff)
  with d show ?thesis by blast
qed

text \<open>
  Claim C3 (success of a trial). In a trial, with \<open>drawn_balls\<close> the result of the
  draw from the copy of the hat, \<open>count_success\<close> is incremented if and only if, for
  every entry \<open>(color, expected_amount)\<close> of \<open>expected_balls\<close>, the colour occurs
  at least \<open>expected_amount\<close> times in \<open>drawn_balls\<close>. Colours that are drawn and
  are not in \<open>expected_balls\<close> do not enter the condition.
\<close>

theorem trial_success_iff:
  "hat < length heap \<Longrightarrow>
     \<exists>drawn_balls hat_copy' g'.
        draw (heap ! hat) num_balls_drawn g = Inr (drawn_balls, hat_copy', g')
      \<and> experiment_body hat expected_balls num_balls_drawn count_success heap g =
          Inr (if (\<forall>(color, expected_amount) \<in> set expected_balls.
                     expected_amount \<le> int (count_list drawn_balls color))
               then count_success + 1 else count_success,
               heap @ [hat_copy'], g')"
  by (rule experiment_body_total)

theorem trial_success_iff_witness:
  "(0::nat) < length [\<lparr>contents = [''red'', ''blue'', ''green''], original_contents = [''red'', ''blue'', ''green'']\<rparr>]
   \<and> experiment_body 0 [(''red'', 1), (''blue'', 1)] 2 5
        [\<lparr>contents = [''red'', ''blue'', ''green''], original_contents = [''red'', ''blue'', ''green'']\<rparr>] (sconst 0)
      = Inr (6, [\<lparr>contents = [''red'', ''blue'', ''green''], original_contents = [''red'', ''blue'', ''green'']\<rparr>,
                 \<lparr>contents = [''green''], original_contents = [''red'', ''blue'', ''green'']\<rparr>], sconst 0)
   \<and> experiment_body 0 [(''red'', 1), (''green'', 1)] 2 5
        [\<lparr>contents = [''red'', ''blue'', ''green''], original_contents = [''red'', ''blue'', ''green'']\<rparr>] (sconst 0)
      = Inr (5, [\<lparr>contents = [''red'', ''blue'', ''green''], original_contents = [''red'', ''blue'', ''green'']\<rparr>,
                 \<lparr>contents = [''green''], original_contents = [''red'', ''blue'', ''green'']\<rparr>], sconst 0)"
  using trial_success_iff [of 0 "[\<lparr>contents = [''red'', ''blue'', ''green''], original_contents = [''red'', ''blue'', ''green'']\<rparr>]"
      2 "sconst 0" "[(''red'', 1), (''blue'', 1)]" 5]
    trial_success_iff [of 0 "[\<lparr>contents = [''red'', ''blue'', ''green''], original_contents = [''red'', ''blue'', ''green'']\<rparr>]"
      2 "sconst 0" "[(''red'', 1), (''green'', 1)]" 5]
  by (simp add: draw_def choice_def randbelow_def list_remove_def numeral_2_eq_2)

subsection \<open>The loop over the trials\<close>

text \<open>
  The loop returns normally and only extends the heap. The counter grows by at most the
  number of trials; by exactly that number when every possible draw meets the
  expectations, and not at all when no possible draw does. The possible draws are
  described by a predicate \<open>P\<close> that holds for the result of every draw from the hat.
\<close>

lemma experiment_loop_total:
  assumes "hat < length heap"
  shows "\<exists>cnt' ext g'.
           experiment_loop n hat expected_balls k cnt heap g = Inr (cnt', heap @ ext, g')
         \<and> cnt \<le> cnt' \<and> cnt' \<le> cnt + int n
         \<and> ((\<forall>g0 out h0 g1. draw (heap ! hat) k g0 = Inr (out, h0, g1) \<longrightarrow> P out)
              \<longrightarrow> (\<forall>out. P out \<longrightarrow> (\<forall>(color, amount) \<in> set expected_balls.
                        amount \<le> int (count_list out color)))
              \<longrightarrow> cnt' = cnt + int n)
         \<and> ((\<forall>g0 out h0 g1. draw (heap ! hat) k g0 = Inr (out, h0, g1) \<longrightarrow> P out)
              \<longrightarrow> (\<forall>out. P out \<longrightarrow> \<not> (\<forall>(color, amount) \<in> set expected_balls.
                        amount \<le> int (count_list out color)))
              \<longrightarrow> cnt' = cnt)"
  using assms
proof (induction n arbitrary: cnt heap g)
  case 0
  then show ?case by simp
next
  case (Suc n)
  let ?crit = "\<lambda>out. \<forall>(color, amount) \<in> set expected_balls. amount \<le> int (count_list out color)"
  from experiment_body_total [OF Suc.prems, of k g expected_balls cnt]
  obtain drawn hc g1 where
    b: "draw (heap ! hat) k g = Inr (drawn, hc, g1)"
       "experiment_body hat expected_balls k cnt heap g =
          Inr (if ?crit drawn then cnt + 1 else cnt, heap @ [hc], g1)" by blast
  let ?c1 = "if ?crit drawn then cnt + 1 else cnt"
  have v: "hat < length (heap @ [hc])" using Suc.prems by simp
  have same: "(heap @ [hc]) ! hat = heap ! hat" using Suc.prems by (simp add: nth_append)
  from Suc.IH [OF v, of ?c1 g1] obtain cnt' ext g' where
    ih: "experiment_loop n hat expected_balls k ?c1 (heap @ [hc]) g1 = Inr (cnt', (heap @ [hc]) @ ext, g')"
        "?c1 \<le> cnt'" "cnt' \<le> ?c1 + int n"
        "(\<forall>g0 out h0 g1. draw (heap ! hat) k g0 = Inr (out, h0, g1) \<longrightarrow> P out)
              \<longrightarrow> (\<forall>out. P out \<longrightarrow> ?crit out) \<longrightarrow> cnt' = ?c1 + int n"
        "(\<forall>g0 out h0 g1. draw (heap ! hat) k g0 = Inr (out, h0, g1) \<longrightarrow> P out)
              \<longrightarrow> (\<forall>out. P out \<longrightarrow> \<not> ?crit out) \<longrightarrow> cnt' = ?c1"
    unfolding same by blast
  have run: "experiment_loop (Suc n) hat expected_balls k cnt heap g = Inr (cnt', heap @ ([hc] @ ext), g')"
    using b(2) ih(1) by simp
  have lo: "cnt \<le> cnt'" using ih(2) by (simp split: if_splits)
  have hi: "cnt' \<le> cnt + int (Suc n)" using ih(3) by (simp split: if_splits)
  have all: "(\<forall>g0 out h0 g1. draw (heap ! hat) k g0 = Inr (out, h0, g1) \<longrightarrow> P out)
              \<longrightarrow> (\<forall>out. P out \<longrightarrow> ?crit out) \<longrightarrow> cnt' = cnt + int (Suc n)"
  proof (intro impI)
    assume p: "\<forall>g0 out h0 g1. draw (heap ! hat) k g0 = Inr (out, h0, g1) \<longrightarrow> P out"
      and q: "\<forall>out. P out \<longrightarrow> ?crit out"
    from p b(1) have "P drawn" by blast
    with q have "?crit drawn" by blast
    moreover from ih(4) p q have "cnt' = ?c1 + int n" by blast
    ultimately show "cnt' = cnt + int (Suc n)" by simp
  qed
  have none: "(\<forall>g0 out h0 g1. draw (heap ! hat) k g0 = Inr (out, h0, g1) \<longrightarrow> P out)
              \<longrightarrow> (\<forall>out. P out \<longrightarrow> \<not> ?crit out) \<longrightarrow> cnt' = cnt"
  proof (intro impI)
    assume p: "\<forall>g0 out h0 g1. draw (heap ! hat) k g0 = Inr (out, h0, g1) \<longrightarrow> P out"
      and q: "\<forall>out. P out \<longrightarrow> \<not> ?crit out"
    from p b(1) have "P drawn" by blast
    with q have "\<not> ?crit drawn" by blast
    moreover from ih(5) p q have "cnt' = ?c1" by blast
    ultimately show "cnt' = cnt" by simp
  qed
  show ?case using run lo hi all none by blast
qed

lemma experiment_fn_run:
  assumes "hat < length heap" and "num \<noteq> 0"
  shows "\<exists>cnt ext g'.
           experiment_loop (nat num) hat expected_balls k 0 heap g = Inr (cnt, heap @ ext, g')
         \<and> experiment_fn hat expected_balls k num heap g
             = Inr (real_of_int cnt / real_of_int num, heap @ ext, g')"
proof -
  from experiment_loop_total [OF assms(1), of "nat num" expected_balls k 0 g "\<lambda>_. True"]
  obtain cnt ext g' where
    "experiment_loop (nat num) hat expected_balls k 0 heap g = Inr (cnt, heap @ ext, g')"
    by blast
  then show ?thesis using assms(2) by (simp add: experiment_fn_def)
qed

lemma count_list_mono:
  "mset xs \<subseteq># mset ys \<Longrightarrow> count_list xs c \<le> count_list ys c"
  by (metis count_mset mset_subset_eq_count)

lemma draw_sub:
  "draw self k g = Inr (out, self', g') \<Longrightarrow> mset out \<subseteq># mset (contents self)"
  using draw_result(2) [of self k g out self' g'] by (metis mset_subset_eq_add_left)

subsection \<open>Trial isolation\<close>

text \<open>
  Claim C1 (trial isolation). For every heap, every reference \<open>hat\<close> to a hat in it,
  every \<open>expected_balls\<close>, every draw size and every positive number of trials,
  \<open>experiment_fn\<close> returns normally, and the hat that \<open>hat\<close> refers to has the same
  \<open>contents\<close> and the same \<open>original_contents\<close> after the call as before. Indeed
  every object that was in the heap before the call is unchanged.
\<close>

theorem experiment_frame:
  "hat < length heap \<Longrightarrow> 0 < num_experiments \<Longrightarrow>
     \<exists>p heap' g'.
        experiment_fn hat expected_balls num_balls_drawn num_experiments heap g = Inr (p, heap', g')
      \<and> contents (heap' ! hat) = contents (heap ! hat)
      \<and> original_contents (heap' ! hat) = original_contents (heap ! hat)
      \<and> take (length heap) heap' = heap"
proof -
  assume v: "hat < length heap" and n: "0 < num_experiments"
  then have "num_experiments \<noteq> 0" by simp
  from experiment_fn_run [OF v this, of expected_balls num_balls_drawn g]
  obtain cnt ext g' where
    r: "experiment_fn hat expected_balls num_balls_drawn num_experiments heap g
          = Inr (real_of_int cnt / real_of_int num_experiments, heap @ ext, g')" by blast
  have "(heap @ ext) ! hat = heap ! hat" using v by (simp add: nth_append)
  then show ?thesis using r by simp
qed

theorem experiment_frame_witness:
  "(0::nat) < length [\<lparr>contents = [''red'', ''blue''], original_contents = [''red'', ''blue'']\<rparr>]
   \<and> (0::int) < 2
   \<and> (\<exists>p heap' g'.
        experiment_fn 0 [(''red'', 1)] 1 2
          [\<lparr>contents = [''red'', ''blue''], original_contents = [''red'', ''blue'']\<rparr>] (sconst 0)
          = Inr (p, heap', g')
      \<and> contents (heap' ! 0) = [''red'', ''blue'']
      \<and> original_contents (heap' ! 0) = [''red'', ''blue''])"
  using experiment_frame [of 0 "[\<lparr>contents = [''red'', ''blue''], original_contents = [''red'', ''blue'']\<rparr>]" 2
      "[(''red'', 1)]" 1 "sconst 0"]
  by auto

subsection \<open>Errors\<close>

text \<open>
  Claim C6, as the code has it. The claim says that a negative \<open>num_balls_drawn\<close>
  makes \<open>experiment_fn\<close> raise. The function has no check of its arguments: with the
  draw size \<open>-1\<close> every trial draws nothing, and the call returns an estimate (here 0,
  since one red ball is expected).
\<close>

theorem experiment_negative_draw_counterexample:
  "experiment_fn 0 [(''red'', 1)] (-1) 1 [\<lparr>contents = [''red''], original_contents = [''red'']\<rparr>] (sconst 0)
     = Inr (0, [\<lparr>contents = [''red''], original_contents = [''red'']\<rparr>,
                \<lparr>contents = [''red''], original_contents = [''red'']\<rparr>], sconst 0)"
  by (simp add: experiment_fn_def experiment_body_def deepcopy_def call_draw_def draw_def
      dict_get_def Let_def)

text \<open>
  Claim C6, amended. On a reference to a hat, \<open>experiment_fn\<close> fails exactly when
  \<open>num_experiments\<close> is 0: the loop then runs no trial and leaves the heap and the
  generator as they were, and the division after the loop raises
  \<^verbatim>\<open>ZeroDivisionError\<close>. For every other \<open>num_experiments\<close> and every
  \<open>num_balls_drawn\<close>, negative ones included, it returns an estimate.
\<close>

theorem experiment_error_iff:
  "hat < length heap \<Longrightarrow>
     (if num_experiments = 0
      then experiment_fn hat expected_balls num_balls_drawn num_experiments heap g
             = Inl ZeroDivisionError
         \<and> experiment_loop (nat num_experiments) hat expected_balls num_balls_drawn 0 heap g
             = Inr (0, heap, g)
      else \<exists>p heap' g'.
             experiment_fn hat expected_balls num_balls_drawn num_experiments heap g
               = Inr (p, heap', g'))"
proof (cases "num_experiments = 0")
  case True
  then show ?thesis by (simp add: experiment_fn_def)
next
  case False
  assume "hat < length heap"
  from experiment_fn_run [OF this False, of expected_balls num_balls_drawn g]
  show ?thesis using False by auto
qed

theorem experiment_error_iff_witness:
  "(0::nat) < length [\<lparr>contents = [''red''], original_contents = [''red'']\<rparr>]
   \<and> experiment_fn 0 [(''red'', 1)] 1 0 [\<lparr>contents = [''red''], original_contents = [''red'']\<rparr>] (sconst 0)
       = Inl ZeroDivisionError
   \<and> (\<exists>p heap' g'.
        experiment_fn 0 [(''red'', 1)] (-1) (-2) [\<lparr>contents = [''red''], original_contents = [''red'']\<rparr>] (sconst 0)
          = Inr (p, heap', g'))"
  using experiment_error_iff [of 0 "[\<lparr>contents = [''red''], original_contents = [''red'']\<rparr>]" 0 "[(''red'', 1)]" 1 "sconst 0"]
    experiment_error_iff [of 0 "[\<lparr>contents = [''red''], original_contents = [''red'']\<rparr>]" "-2" "[(''red'', 1)]" "-1" "sconst 0"]
  by simp

subsection \<open>Bounds on the estimate\<close>

text \<open>
  Claim C7 (bounds). For every reference to a hat, every positive number of trials and
  every draw size, \<open>experiment_fn\<close> returns an estimate \<open>p\<close> with \<open>0 \<le> p \<le> 1\<close>.
  The estimate is 1 when the draw size is at least the number of balls in the hat and
  every entry of \<open>expected_balls\<close> asks for at most as many balls of its colour as the
  hat contains. It is 0 when some entry asks for more balls of its colour than the hat
  contains. The hat's balls are its \<open>contents\<close> at the time of the call.
\<close>

theorem experiment_bounds:
  "hat < length heap \<Longrightarrow> 0 < num_experiments \<Longrightarrow>
     \<exists>p heap' g'.
        experiment_fn hat expected_balls num_balls_drawn num_experiments heap g = Inr (p, heap', g')
      \<and> 0 \<le> p \<and> p \<le> 1
      \<and> (int (length (contents (heap ! hat))) \<le> num_balls_drawn
           \<and> (\<forall>(color, expected_amount) \<in> set expected_balls.
                 expected_amount \<le> int (count_list (contents (heap ! hat)) color))
           \<longrightarrow> p = 1)
      \<and> ((\<exists>(color, expected_amount) \<in> set expected_balls.
              int (count_list (contents (heap ! hat)) color) < expected_amount)
           \<longrightarrow> p = 0)"
proof -
  assume v: "hat < length heap" and n: "0 < num_experiments"
  let ?h = "heap ! hat"
  let ?loop = "experiment_loop (nat num_experiments) hat expected_balls num_balls_drawn 0 heap g"
  let ?crit = "\<lambda>out. \<forall>(color, amount) \<in> set expected_balls. amount \<le> int (count_list out color)"
  from n have nz: "num_experiments \<noteq> 0" by simp
  from experiment_fn_run [OF v nz, of expected_balls num_balls_drawn g]
  obtain cnt ext g' where
    r: "?loop = Inr (cnt, heap @ ext, g')"
       "experiment_fn hat expected_balls num_balls_drawn num_experiments heap g
          = Inr (real_of_int cnt / real_of_int num_experiments, heap @ ext, g')" by blast
  let ?p = "real_of_int cnt / real_of_int num_experiments"
  have bounds: "0 \<le> cnt \<and> cnt \<le> num_experiments"
    using experiment_loop_total [OF v, of "nat num_experiments" expected_balls num_balls_drawn 0 g "\<lambda>_. True"]
      r(1) n by auto
  have p01: "0 \<le> ?p \<and> ?p \<le> 1" using bounds n by simp
  have one: "?p = 1"
    if over: "int (length (contents ?h)) \<le> num_balls_drawn" and enough: "?crit (contents ?h)"
  proof -
    have a: "\<forall>g0 out h0 g1. draw ?h num_balls_drawn g0 = Inr (out, h0, g1) \<longrightarrow> out = contents ?h"
      using over by (simp add: draw_def)
    have b: "\<forall>out. out = contents ?h \<longrightarrow> ?crit out" using enough by simp
    from experiment_loop_total [OF v, of "nat num_experiments" expected_balls num_balls_drawn 0 g
        "\<lambda>out. out = contents ?h"] a b r(1) n
    have "cnt = num_experiments" by auto
    then show ?thesis using n by simp
  qed
  have zero: "?p = 0"
    if short: "\<exists>(color, expected_amount) \<in> set expected_balls.
                 int (count_list (contents ?h) color) < expected_amount"
  proof -
    have a: "\<forall>g0 out h0 g1. draw ?h num_balls_drawn g0 = Inr (out, h0, g1)
               \<longrightarrow> mset out \<subseteq># mset (contents ?h)"
      using draw_sub by blast
    have b: "\<forall>out. mset out \<subseteq># mset (contents ?h) \<longrightarrow> \<not> ?crit out"
    proof (intro allI impI)
      fix out assume s: "mset out \<subseteq># mset (contents ?h)"
      from short obtain color amount where
        m: "(color, amount) \<in> set expected_balls" "int (count_list (contents ?h) color) < amount"
        by auto
      have "count_list out color \<le> count_list (contents ?h) color"
        using s by (rule count_list_mono)
      then have "\<not> amount \<le> int (count_list out color)" using m(2) by simp
      then show "\<not> ?crit out" using m(1) by auto
    qed
    from experiment_loop_total [OF v, of "nat num_experiments" expected_balls num_balls_drawn 0 g
        "\<lambda>out. mset out \<subseteq># mset (contents ?h)"] a b r(1)
    have "cnt = 0" by auto
    then show ?thesis by simp
  qed
  show ?thesis using r(2) p01 one zero by blast
qed

theorem experiment_bounds_witness:
  "(0::nat) < length [\<lparr>contents = [''red'', ''blue''], original_contents = [''red'', ''blue'']\<rparr>]
   \<and> (0::int) < 3
   \<and> (\<exists>heap' g'.
        experiment_fn 0 [(''red'', 1)] 2 3
          [\<lparr>contents = [''red'', ''blue''], original_contents = [''red'', ''blue'']\<rparr>] (sconst 0)
          = Inr (1, heap', g'))
   \<and> (\<exists>heap' g'.
        experiment_fn 0 [(''red'', 2)] 1 3
          [\<lparr>contents = [''red'', ''blue''], original_contents = [''red'', ''blue'']\<rparr>] (sconst 0)
          = Inr (0, heap', g'))"
  using experiment_bounds [of 0 "[\<lparr>contents = [''red'', ''blue''], original_contents = [''red'', ''blue'']\<rparr>]" 3
      "[(''red'', 1)]" 2 "sconst 0"]
    experiment_bounds [of 0 "[\<lparr>contents = [''red'', ''blue''], original_contents = [''red'', ''blue'']\<rparr>]" 3
      "[(''red'', 2)]" 1 "sconst 0"]
  by auto

subsection \<open>Draw size zero\<close>

text \<open>
  Claim C8, as the code has it. The claim says that the draw size 0 gives the estimate 0
  for every non-empty \<open>expected_balls\<close>. An entry with the expected amount 0 is met by
  an empty draw: with \<^verbatim>\<open>{"red": 0}\<close> the only trial succeeds and the estimate is 1.
\<close>

theorem experiment_zero_draw_counterexample:
  "experiment_fn 0 [(''red'', 0)] 0 1 [\<lparr>contents = [''red''], original_contents = [''red'']\<rparr>] (sconst 0)
     = Inr (1, [\<lparr>contents = [''red''], original_contents = [''red'']\<rparr>,
                \<lparr>contents = [''red''], original_contents = [''red'']\<rparr>], sconst 0)"
  by (simp add: experiment_fn_def experiment_body_def deepcopy_def call_draw_def draw_def
      dict_get_def Let_def)

text \<open>
  Claim C8, amended. For every reference to a hat, every positive number of trials and
  every \<open>expected_balls\<close> in which some colour has a positive expected amount,
  \<open>experiment_fn\<close> with the draw size 0 returns the estimate 0.
\<close>

theorem experiment_zero_draw:
  "hat < length heap \<Longrightarrow> 0 < num_experiments \<Longrightarrow>
   (\<exists>(color, expected_amount) \<in> set expected_balls. 0 < expected_amount) \<Longrightarrow>
     \<exists>heap' g'. experiment_fn hat expected_balls 0 num_experiments heap g = Inr (0, heap', g')"
proof -
  assume v: "hat < length heap" and n: "0 < num_experiments"
    and pos: "\<exists>(color, expected_amount) \<in> set expected_balls. 0 < expected_amount"
  let ?crit = "\<lambda>out. \<forall>(color, amount) \<in> set expected_balls. amount \<le> int (count_list out color)"
  from n have nz: "num_experiments \<noteq> 0" by simp
  from experiment_fn_run [OF v nz, of expected_balls 0 g]
  obtain cnt ext g' where
    r: "experiment_loop (nat num_experiments) hat expected_balls 0 0 heap g = Inr (cnt, heap @ ext, g')"
       "experiment_fn hat expected_balls 0 num_experiments heap g
          = Inr (real_of_int cnt / real_of_int num_experiments, heap @ ext, g')" by blast
  have a: "\<forall>g0 out h0 g1. draw (heap ! hat) 0 g0 = Inr (out, h0, g1) \<longrightarrow> out = []"
    using draw_result(3) by fastforce
  have b: "\<forall>out. out = [] \<longrightarrow> \<not> ?crit out"
    using pos by fastforce
  from experiment_loop_total [OF v, of "nat num_experiments" expected_balls 0 0 g "\<lambda>out. out = []"]
    a b r(1)
  have "cnt = 0" by auto
  then show ?thesis using r(2) by simp
qed

theorem experiment_zero_draw_witness:
  "(0::nat) < length [\<lparr>contents = [''red'', ''blue''], original_contents = [''red'', ''blue'']\<rparr>]
   \<and> (0::int) < 4
   \<and> (\<exists>heap' g'.
        experiment_fn 0 [(''blue'', 0), (''red'', 1)] 0 4
          [\<lparr>contents = [''red'', ''blue''], original_contents = [''red'', ''blue'']\<rparr>] (sconst 0)
          = Inr (0, heap', g'))"
  using experiment_zero_draw [of 0 "[\<lparr>contents = [''red'', ''blue''], original_contents = [''red'', ''blue'']\<rparr>]" 4
      "[(''blue'', 0), (''red'', 1)]" "sconst 0"]
  by simp

end
